theory Spec2Isabelle
  imports Complex_Main
begin

section \<open>GameDemon: slot machine, inventory and UI widgets\<close>

text \<open>
  The repository is a set of browser widgets written in JavaScript. The development
  below embeds the parts of it that the checked properties are about:
  \<^item> \<open>SLOT_CONFIG\<close> (\<open>src/audioman/audio-manager-ui.js\<close>, second document of the file),
  \<^item> \<open>GameState\<close> (\<open>src/slots-2/game-state.js\<close>),
  \<^item> \<open>GameEngine\<close> (\<open>src/slots-2/game-engine.js\<close>),
  \<^item> the legacy \<open>PaytableManager\<close> (\<open>src/unnamed/part_000\<close>),
  \<^item> the auto-spin scheduler of \<open>EnhancedSlotMachine\<close> and the page that
    \<open>SlotMachineApp\<close> builds (\<open>src/unnamed/part_001\<close>),
  \<^item> \<open>UIManager.togglePanel\<close> (\<open>src/audioman/audio-manager-ui.js\<close>, third document),
  \<^item> \<open>InventoryManager\<close> (\<open>src/inventory/inventory-manager.js\<close>).

  Conventions of the embedding.
  \<^item> A JavaScript number is an exact rational (\<open>rat\<close>); upgrade levels, which the code
    only ever counts up from zero, are natural numbers. The source computes with IEEE
    doubles, so a value that the source rounds (\<open>luckMeter * 0.1 * 100\<close>, \<open>b / 1875\<close>)
    can differ from the model's in its last unit. The selection loops below are
    therefore defined once for any type with \<open>+\<close> and \<open><\<close>, and their
    characterisation uses no law of arithmetic.
  \<^item> A JavaScript string is the list of the bytes of its UTF-8 encoding (\<open>string\<close>).
  \<^item> \<open>null\<close> and \<open>undefined\<close> are \<open>None\<close>.
  \<^item> A thrown exception is a value \<open>Inl e\<close> of a sum type.
  \<^item> \<open>Math.random()\<close> is an explicit infinite sequence of draws \<open>rng :: nat \<Rightarrow> rat\<close>
    together with the index of the next draw; a function that draws returns the new index.
  \<^item> A loop that need not end returns \<open>None\<close> when it does not.
\<close>

subsection \<open>Strings and errors\<close>

datatype jsError = Error string | TypeError string

text \<open>The eight reel symbols, as the UTF-8 bytes of the emoji in the source.\<close>

definition CHERRY :: string where
  "CHERRY = [CHR 0xF0, CHR 0x9F, CHR 0x8D, CHR 0x92]"

definition LEMON :: string where
  "LEMON = [CHR 0xF0, CHR 0x9F, CHR 0x8D, CHR 0x8B]"

definition ORANGE :: string where
  "ORANGE = [CHR 0xF0, CHR 0x9F, CHR 0x8D, CHR 0x8A]"

definition GRAPES :: string where
  "GRAPES = [CHR 0xF0, CHR 0x9F, CHR 0x8D, CHR 0x87]"

definition STRAWBERRY :: string where
  "STRAWBERRY = [CHR 0xF0, CHR 0x9F, CHR 0x8D, CHR 0x93]"

definition GEM :: string where
  "GEM = [CHR 0xF0, CHR 0x9F, CHR 0x92, CHR 0x8E]"

definition SLOT :: string where
  "SLOT = [CHR 0xF0, CHR 0x9F, CHR 0x8E, CHR 0xB0]"

definition STAR :: string where
  "STAR = [CHR 0xF0, CHR 0x9F, CHR 0x8C, CHR 0x9F]"

subsection \<open>\<open>SLOT_CONFIG\<close>\<close>

definition INITIAL_CREDITS :: rat where "INITIAL_CREDITS = 500"
definition INITIAL_JACKPOT :: rat where "INITIAL_JACKPOT = 1000"
definition BASE_COST :: rat where "BASE_COST = 10"
definition MAX_LUCK :: rat where "MAX_LUCK = 100"
definition LUCK_BONUS_MULTIPLIER :: rat where "LUCK_BONUS_MULTIPLIER = 1 / 10"

definition SYMBOLS :: "string list" where
  "SYMBOLS = [CHERRY, LEMON, ORANGE, GRAPES, STRAWBERRY, GEM, SLOT, STAR]"

text \<open>
  \<open>SYMBOL_PROBABILITIES\<close> is an object literal with string keys; \<open>Object.entries\<close>
  lists them in the order they are written, which the association list keeps.
\<close>

definition SYMBOL_PROBABILITIES :: "(string \<times> rat) list" where
  "SYMBOL_PROBABILITIES =
     [(CHERRY, 800), (LEMON, 500), (ORANGE, 300), (GRAPES, 150),
      (STRAWBERRY, 80), (GEM, 30), (SLOT, 10), (STAR, 5)]"

definition TOTAL_BASE_WIN_PROBABILITY :: rat where
  "TOTAL_BASE_WIN_PROBABILITY = 1875"

definition REEL_DISPLAY_WEIGHTS :: "(string \<times> rat) list" where
  "REEL_DISPLAY_WEIGHTS =
     [(CHERRY, 30), (LEMON, 25), (ORANGE, 20), (GRAPES, 15),
      (STRAWBERRY, 8), (GEM, 4), (SLOT, 2), (STAR, 1)]"

record payoutInfo =
  basePayout :: rat
  name :: string
  isJackpot :: bool

text \<open>Only the entry of the star has \<open>isJackpot: true\<close>; elsewhere the property is absent, hence falsy.\<close>

definition PAYOUTS :: "(string \<times> payoutInfo) list" where
  "PAYOUTS =
     [(CHERRY, \<lparr>basePayout = 10, name = ''Cherry Win!'', isJackpot = False\<rparr>),
      (LEMON, \<lparr>basePayout = 25, name = ''Lemon Lucky!'', isJackpot = False\<rparr>),
      (ORANGE, \<lparr>basePayout = 50, name = ''Orange Crush!'', isJackpot = False\<rparr>),
      (GRAPES, \<lparr>basePayout = 80, name = ''Grape Great!'', isJackpot = False\<rparr>),
      (STRAWBERRY, \<lparr>basePayout = 200, name = ''Strawberry Super!'', isJackpot = False\<rparr>),
      (GEM, \<lparr>basePayout = 400, name = ''Diamond Delight!'', isJackpot = False\<rparr>),
      (SLOT, \<lparr>basePayout = 750, name = ''Slot Machine Mania!'', isJackpot = False\<rparr>),
      (STAR, \<lparr>basePayout = 1000, name = ''MEGA JACKPOT!'', isJackpot = True\<rparr>)]"


subsection \<open>\<open>GameState\<close>\<close>

record luckUpgrades =
  LUCK_GAIN :: nat
  LUCK_RETENTION :: nat
  luck_MAX_LUCK :: nat

record multiplierUpgrades =
  COMBO_POWER :: nat
  mult_MAX_MULTIPLIER :: nat

record upgradeLevels =
  symbols :: "string \<Rightarrow> nat"
  luck :: luckUpgrades
  multiplier :: multiplierUpgrades

text \<open>
  The twelve data fields of a \<open>GameState\<close>. \<open>serialize\<close> returns them with one more
  key, \<open>canAffordSpin\<close>; the object itself has them as own properties, and finds
  \<open>canAffordSpin\<close> as a method on its prototype unless an own property of that name
  shadows it (\<open>own_canAffordSpin\<close>, \<open>None\<close> when there is none).
  The bet multiplier field is \<open>betMultiplier\<close> here (\<open>multiplier\<close> in the source).
\<close>

record stateData =
  credits :: rat
  jackpot :: rat
  betMultiplier :: rat
  luckMeter :: rat
  totalSpins :: rat
  totalWins :: rat
  winStreak :: rat
  biggestWin :: rat
  jackpots :: rat
  comboCount :: rat
  comboMultiplier :: rat
  upgrades :: upgradeLevels

record serialized = stateData +
  canAffordSpin_key :: bool

record gameState = stateData +
  own_canAffordSpin :: "bool option"

definition getMaxLuck :: "'a stateData_scheme \<Rightarrow> rat" where
  "getMaxLuck g = MAX_LUCK + of_nat (luck_MAX_LUCK (luck (upgrades g))) * 25"

text \<open>
  \<open>this.canAffordSpin()\<close>: a call. When an own data property shadows the method, the
  callee is a boolean and the call throws a \<open>TypeError\<close>.
\<close>

definition canAffordSpin :: "gameState \<Rightarrow> jsError + bool" where
  "canAffordSpin g =
     (case own_canAffordSpin g of
        Some b \<Rightarrow> Inl (TypeError ''this.canAffordSpin is not a function'')
      | None \<Rightarrow> Inr (credits g \<ge> BASE_COST * betMultiplier g))"

text \<open>\<open>upgrades: JSON.parse(JSON.stringify(this.upgrades))\<close> is a deep copy: the same levels.\<close>

definition serialize :: "gameState \<Rightarrow> jsError + serialized" where
  "serialize g =
     (case canAffordSpin g of
        Inl e \<Rightarrow> Inl e
      | Inr b \<Rightarrow> Inr \<lparr>credits = credits g, jackpot = jackpot g,
          betMultiplier = betMultiplier g, luckMeter = luckMeter g,
          totalSpins = totalSpins g, totalWins = totalWins g,
          winStreak = winStreak g, biggestWin = biggestWin g,
          jackpots = jackpots g, comboCount = comboCount g,
          comboMultiplier = comboMultiplier g, upgrades = upgrades g,
          canAffordSpin_key = b\<rparr>)"

text \<open>
  \<open>emitStateChange\<close> evaluates \<open>this.serialize()\<close> and hands the value to the
  dispatcher, which calls each listener inside \<open>try\<close>/\<open>catch\<close>: the only exception that
  can leave it is one thrown by \<open>serialize\<close>. The model returns what was emitted.
\<close>

definition emitStateChange :: "gameState \<Rightarrow> jsError + serialized" where
  "emitStateChange g = serialize g"

text \<open>\<open>Object.assign(this, data)\<close> copies every own key of \<open>data\<close>, \<open>canAffordSpin\<close> included.\<close>

definition assign :: "gameState \<Rightarrow> serialized \<Rightarrow> gameState" where
  "assign g d =
     \<lparr>credits = credits d, jackpot = jackpot d,
      betMultiplier = betMultiplier d, luckMeter = luckMeter d,
      totalSpins = totalSpins d, totalWins = totalWins d,
      winStreak = winStreak d, biggestWin = biggestWin d,
      jackpots = jackpots d, comboCount = comboCount d,
      comboMultiplier = comboMultiplier d, upgrades = upgrades d,
      own_canAffordSpin = Some (canAffordSpin_key d)\<rparr>"

text \<open>
  \<open>deserialize\<close> returns the object after the assignment, and either the exception
  that leaves the method or the state it emitted.
\<close>

definition deserialize :: "gameState \<Rightarrow> serialized \<Rightarrow> gameState \<times> (jsError + serialized)" where
  "deserialize g d = (let g' = assign g d in (g', emitStateChange g'))"

text \<open>\<open>reset()\<close>: the state a new \<open>GameState\<close> starts in.\<close>

definition reset :: gameState where
  "reset =
     \<lparr>credits = INITIAL_CREDITS, jackpot = INITIAL_JACKPOT, betMultiplier = 1, luckMeter = 0,
      totalSpins = 0, totalWins = 0, winStreak = 0, biggestWin = 0, jackpots = 0,
      comboCount = 0, comboMultiplier = 1,
      upgrades = \<lparr>symbols = (\<lambda>s. 0),
        luck = \<lparr>LUCK_GAIN = 0, LUCK_RETENTION = 0, luck_MAX_LUCK = 0\<rparr>,
        multiplier = \<lparr>COMBO_POWER = 0, mult_MAX_MULTIPLIER = 0\<rparr>\<rparr>,
      own_canAffordSpin = None\<rparr>"


subsection \<open>\<open>GameEngine\<close>\<close>

type_synonym rng = "nat \<Rightarrow> rat"


text \<open>
  The object \<open>calculateSpinResult\<close> returns. Its \<open>symbols\<close> key is \<open>resultSymbols\<close> here,
  \<open>symbols\<close> being the key of the upgrade levels above.
\<close>

record spinResult =
  type :: string
  resultSymbols :: "string list"
  winSymbol :: "string option"
  payout :: "payoutInfo option"


text \<open>
  The loop of \<open>getWeightedDisplaySymbol\<close> over the entries of \<open>REEL_DISPLAY_WEIGHTS\<close>:
  \<open>random -= weight; if (random <= 0) return symbol\<close>.
\<close>

fun displayLoop :: "(string \<times> 'n) list \<Rightarrow> 'n::{minus,zero,ord} \<Rightarrow> string option" where
  "displayLoop [] random = None"
| "displayLoop ((symbol, weight) # rest) random =
     (let random' = random - weight in
      if random' \<le> 0 then Some symbol else displayLoop rest random')"

definition getWeightedDisplaySymbol :: "rng \<Rightarrow> nat \<Rightarrow> string \<times> nat" where
  "getWeightedDisplaySymbol rng i =
     (let totalWeight = foldl (+) 0 (map snd REEL_DISPLAY_WEIGHTS);
          random = rng i * totalWeight
      in (case displayLoop REEL_DISPLAY_WEIGHTS random of
            Some symbol \<Rightarrow> symbol
          | None \<Rightarrow> SYMBOLS ! 0,
          Suc i))"

definition calculateTotalWinChance :: "'a stateData_scheme \<Rightarrow> rat" where
  "calculateTotalWinChance g =
     (let baseProbability = TOTAL_BASE_WIN_PROBABILITY;
          luckBonus = luckMeter g * LUCK_BONUS_MULTIPLIER * 100
      in min (baseProbability + luckBonus) 9500)"

text \<open>
  The loop of \<open>selectWinningSymbol\<close> over the entries of \<open>SYMBOL_PROBABILITIES\<close>, for any
  number type: \<open>adjusted\<close> computes the adjusted probability of an entry from its base
  probability; the running sum \<open>cumulativeProbability\<close> is carried along.
\<close>

fun selectLoop ::
  "(string \<times> 'n) list \<Rightarrow> ('n \<Rightarrow> 'n) \<Rightarrow> 'n \<Rightarrow> 'n::{plus,ord} \<Rightarrow> string option" where
  "selectLoop [] adjusted random cumulativeProbability = None"
| "selectLoop ((symbol, baseProbability) # rest) adjusted random cumulativeProbability =
     (let cumulativeProbability' = cumulativeProbability + adjusted baseProbability in
      if random < cumulativeProbability' then Some symbol
      else selectLoop rest adjusted random cumulativeProbability')"

text \<open>
  \<open>adjustedProbability\<close> is the body of the loop up to \<open>adjustedProbability\<close>, given the
  luck bonus computed before the loop.
\<close>

definition adjustedProbability :: "rat \<Rightarrow> rat \<Rightarrow> rat" where
  "adjustedProbability luckBonus baseProbability =
     (let totalBaseProbability = TOTAL_BASE_WIN_PROBABILITY;
          proportionalLuckBonus = luckBonus * (baseProbability / totalBaseProbability)
      in baseProbability + proportionalLuckBonus)"

text \<open>\<open>selectWinningSymbol\<close> after its draw: \<open>random\<close> is \<open>Math.floor(Math.random() * 10000)\<close>.\<close>

definition selectWinningSymbolFor :: "'a stateData_scheme \<Rightarrow> rat \<Rightarrow> string" where
  "selectWinningSymbolFor g random =
     (let luckBonus = luckMeter g * LUCK_BONUS_MULTIPLIER * 100 in
      case selectLoop SYMBOL_PROBABILITIES (adjustedProbability luckBonus) random 0 of
        Some symbol \<Rightarrow> symbol
      | None \<Rightarrow> CHERRY)"

definition selectWinningSymbol :: "rng \<Rightarrow> nat \<Rightarrow> 'a stateData_scheme \<Rightarrow> string \<times> nat" where
  "selectWinningSymbol rng i g =
     (let random = of_int \<lfloor>rng i * 10000\<rfloor> in (selectWinningSymbolFor g random, Suc i))"

text \<open>
  The \<open>while\<close> loop of \<open>generateLosingCombination\<close>: it redraws the third symbol as long
  as the three are equal. Nothing bounds the number of redraws, so the loop is a partial
  function: \<open>None\<close> when it never ends.
\<close>

partial_function (option) redrawThird ::
  "rng \<Rightarrow> string \<Rightarrow> string \<Rightarrow> string \<Rightarrow> nat \<Rightarrow> (string list \<times> nat) option" where
  "redrawThird rng s0 s1 s2 i =
     (if s0 = s1 \<and> s1 = s2
      then redrawThird rng s0 s1 (fst (getWeightedDisplaySymbol rng i))
             (snd (getWeightedDisplaySymbol rng i))
      else Some ([s0, s1, s2], i))"

definition generateLosingCombination :: "rng \<Rightarrow> nat \<Rightarrow> (string list \<times> nat) option" where
  "generateLosingCombination rng i =
     (let (s0, i0) = getWeightedDisplaySymbol rng i;
          (s1, i1) = getWeightedDisplaySymbol rng i0;
          (s2, i2) = getWeightedDisplaySymbol rng i1
      in redrawThird rng s0 s1 s2 i2)"

definition calculateSpinResult :: "rng \<Rightarrow> nat \<Rightarrow> gameState \<Rightarrow> (spinResult \<times> nat) option" where
  "calculateSpinResult rng i g =
     (if luckMeter g \<ge> getMaxLuck g
      then Some (\<lparr>type = ''luck_jackpot'', resultSymbols = [STAR, STAR, STAR],
                  winSymbol = Some STAR, payout = map_of PAYOUTS STAR\<rparr>, i)
      else
        (let totalWinChance = calculateTotalWinChance g;
             random = of_int \<lfloor>rng i * 10000\<rfloor>;
             shouldWin = random < totalWinChance
         in if shouldWin
            then (let (symbol, i') = selectWinningSymbol rng (Suc i) g in
                  Some (\<lparr>type = ''win'', resultSymbols = [symbol, symbol, symbol],
                          winSymbol = Some symbol, payout = map_of PAYOUTS symbol\<rparr>, i'))
            else (case generateLosingCombination rng (Suc i) of
                    None \<Rightarrow> None
                  | Some (combination, i') \<Rightarrow>
                      Some (\<lparr>type = ''loss'', resultSymbols = combination,
                              winSymbol = None, payout = None\<rparr>, i'))))"





subsection \<open>The legacy \<open>PaytableManager\<close>\<close>

text \<open>
  \<open>src/unnamed/part_000\<close>. The manager reads the luck meter of \<open>this.slotMachine\<close>, which
  its safety checks allow to be \<open>null\<close>. The string its \<open>selectWinningSymbol\<close> falls back
  to is, in the file, the three characters U+00F0 U+0178 U+2019.
\<close>

definition LEGACY_FALLBACK :: string where
  "LEGACY_FALLBACK = [CHR 0xC3, CHR 0xB0, CHR 0xC5, CHR 0xB8, CHR 0xE2, CHR 0x80, CHR 0x99]"

definition PaytableManager_calculateTotalWinChance :: "'a stateData_scheme option \<Rightarrow> rat" where
  "PaytableManager_calculateTotalWinChance slotMachine =
     (let baseProbability = TOTAL_BASE_WIN_PROBABILITY in
      case slotMachine of
        None \<Rightarrow> baseProbability
      | Some m \<Rightarrow>
          (let luckBonus = luckMeter m * LUCK_BONUS_MULTIPLIER * 100
           in min (baseProbability + luckBonus) 9500))"

definition PaytableManager_selectWinningSymbolFor ::
  "'a stateData_scheme option \<Rightarrow> rat \<Rightarrow> string" where
  "PaytableManager_selectWinningSymbolFor slotMachine random =
     (let luckBonus = (case slotMachine of
                         Some m \<Rightarrow> luckMeter m * LUCK_BONUS_MULTIPLIER * 100
                       | None \<Rightarrow> 0)
      in case selectLoop SYMBOL_PROBABILITIES (adjustedProbability luckBonus) random 0 of
           Some symbol \<Rightarrow> symbol
         | None \<Rightarrow> LEGACY_FALLBACK)"

definition PaytableManager_selectWinningSymbol ::
  "rng \<Rightarrow> nat \<Rightarrow> 'a stateData_scheme option \<Rightarrow> string \<times> nat" where
  "PaytableManager_selectWinningSymbol rng i slotMachine =
     (let random = of_int \<lfloor>rng i * 10000\<rfloor>
      in (PaytableManager_selectWinningSymbolFor slotMachine random, Suc i))"

subsection \<open>The generator as the specification words it\<close>








subsection \<open>\<open>UIManager\<close>: the panels\<close>

text \<open>
  \<open>togglePanel(panelType)\<close> looks up \<open>this.elements[panelType + "Panel"]\<close> and
  \<open>this.elements[panelType + "Btn"]\<close>. The \<open>elements\<close> object is built once, by
  \<open>initializeElements\<close>; its only keys ending in \<open>Panel\<close> are \<open>upgradesPanel\<close> and
  \<open>statsPanel\<close>, each the element found by \<open>getElementById\<close> or \<open>null\<close>; for any
  other \<open>panelType\<close> the panel lookup is \<open>undefined\<close> and the method returns at once,
  whatever button there is. Of a panel element the code reads and writes
  \<open>style.display\<close>; of a button, the class \<open>active\<close> and the text.
\<close>

record panelElement =
  display :: string

record buttonElement =
  activeClass :: bool
  textContent :: string

record elements =
  upgradesPanel :: "panelElement option"
  statsPanel :: "panelElement option"
  upgradesBtn :: "buttonElement option"
  statsBtn :: "buttonElement option"

text \<open>
  The manager: its elements, \<open>activePanel\<close>, and the events it has emitted on the
  dispatcher (name and category), latest last.
\<close>

record uiManager =
  elems :: elements
  activePanel :: "string option"
  emitted :: "(string \<times> string) list"

text \<open>\<open>this.elements[key + "Panel"]\<close> and \<open>this.elements[key + "Btn"]\<close>, read and written.\<close>

definition panelOf :: "elements \<Rightarrow> string \<Rightarrow> panelElement option" where
  "panelOf els key =
     (if key = ''upgrades'' then upgradesPanel els
      else if key = ''stats'' then statsPanel els
      else None)"

definition buttonOf :: "elements \<Rightarrow> string \<Rightarrow> buttonElement option" where
  "buttonOf els key =
     (if key = ''upgrades'' then upgradesBtn els
      else if key = ''stats'' then statsBtn els
      else None)"

definition setPanel :: "string \<Rightarrow> panelElement \<Rightarrow> elements \<Rightarrow> elements" where
  "setPanel key e els =
     (if key = ''upgrades'' then els\<lparr>upgradesPanel := Some e\<rparr>
      else if key = ''stats'' then els\<lparr>statsPanel := Some e\<rparr>
      else els)"

definition setButton :: "string \<Rightarrow> buttonElement \<Rightarrow> elements \<Rightarrow> elements" where
  "setButton key e els =
     (if key = ''upgrades'' then els\<lparr>upgradesBtn := Some e\<rparr>
      else if key = ''stats'' then els\<lparr>statsBtn := Some e\<rparr>
      else els)"

text \<open>
  \<open>s.charAt(0).toUpperCase() + s.slice(1)\<close>, for a first character in ASCII (the panel
  names are \<open>upgrades\<close> and \<open>stats\<close>).
\<close>

definition toUpperCase :: "char \<Rightarrow> char" where
  "toUpperCase c =
     (if (97::nat) \<le> of_char c \<and> of_char c \<le> (122::nat)
      then char_of (of_char c - (32::nat)) else c)"

fun capitalize :: "string \<Rightarrow> string" where
  "capitalize [] = []"
| "capitalize (c # cs) = toUpperCase c # cs"

text \<open>The block \<open>// Close current panel\<close>, for the panel \<open>current\<close> that \<open>activePanel\<close> names.\<close>

definition closeCurrent :: "string \<Rightarrow> elements \<Rightarrow> elements" where
  "closeCurrent current els =
     (let els1 = (case panelOf els current of
                    Some currentPanel \<Rightarrow> setPanel current (currentPanel\<lparr>display := ''none''\<rparr>) els
                  | None \<Rightarrow> els)
      in case buttonOf els1 current of
           Some currentButton \<Rightarrow>
             setButton current
               (currentButton\<lparr>activeClass := False, textContent := capitalize current\<rparr>) els1
         | None \<Rightarrow> els1)"

text \<open>\<open>renderUpgrades(category)\<close> emits \<open>render_upgrades\<close> with the category.\<close>

definition renderUpgrades :: "string \<Rightarrow> uiManager \<Rightarrow> uiManager" where
  "renderUpgrades category ui = ui\<lparr>emitted := emitted ui @ [(''render_upgrades'', category)]\<rparr>"

text \<open>
  \<open>togglePanel\<close>. \<open>this.activePanel && this.activePanel !== panelType\<close> is false for
  \<open>null\<close> and for the empty string.
\<close>

definition togglePanel :: "string \<Rightarrow> uiManager \<Rightarrow> uiManager" where
  "togglePanel panelType ui =
     (case (panelOf (elems ui) panelType, buttonOf (elems ui) panelType) of
        (Some panelElement, Some buttonElement) \<Rightarrow>
          (let isVisible = (display panelElement \<noteq> ''none'');
               els1 = (case activePanel ui of
                         Some current \<Rightarrow>
                           if current \<noteq> [] \<and> current \<noteq> panelType
                           then closeCurrent current (elems ui) else elems ui
                       | None \<Rightarrow> elems ui);
               els2 = setPanel panelType
                        (panelElement\<lparr>display := (if isVisible then ''none'' else ''block'')\<rparr>) els1;
               els3 = setButton panelType
                        (buttonElement\<lparr>
                           textContent := (if isVisible then capitalize panelType
                                           else ''Hide '' @ capitalize panelType),
                           activeClass := \<not> isVisible\<rparr>) els2;
               ui1 = ui\<lparr>elems := els3,
                        activePanel := (if isVisible then None else Some panelType)\<rparr>
           in if \<not> isVisible \<and> panelType = ''upgrades'' then renderUpgrades ''symbols'' ui1
              else ui1)
      | _ \<Rightarrow> ui)"

text \<open>A sequence of calls, first first.\<close>

definition togglePanels :: "string list \<Rightarrow> uiManager \<Rightarrow> uiManager" where
  "togglePanels ps ui = fold togglePanel ps ui"

text \<open>
  The invariant in the specification's words: a panel is displayed (its inline
  \<open>display\<close> is not \<open>none\<close>, the test \<open>togglePanel\<close> itself makes) exactly when
  \<open>activePanel\<close> names it.
\<close>

definition displayed :: "uiManager \<Rightarrow> string \<Rightarrow> bool" where
  "displayed ui key =
     (case panelOf (elems ui) key of Some e \<Rightarrow> display e \<noteq> ''none'' | None \<Rightarrow> False)"


text \<open>A page with both panels and both buttons, the panels hidden by an inline style.\<close>

definition hiddenPanels :: uiManager where
  "hiddenPanels =
     \<lparr>elems = \<lparr>upgradesPanel = Some \<lparr>display = ''none''\<rparr>,
                statsPanel = Some \<lparr>display = ''none''\<rparr>,
                upgradesBtn = Some \<lparr>activeClass = False, textContent = ''Upgrades''\<rparr>,
                statsBtn = Some \<lparr>activeClass = False, textContent = ''Stats''\<rparr>\<rparr>,
      activePanel = None, emitted = []\<rparr>"


subsection \<open>\<open>EnhancedSlotMachine\<close>: the auto-spin scheduler\<close>

text \<open>
  \<open>src/unnamed/part_001\<close>. The machine's two control fields, and what the browser holds
  for it: the ids of the timeouts that are armed with the auto-spin callback, and the id
  the next \<open>setTimeout\<close> will return (the ids a browser hands out are positive and
  increasing).
\<close>

record slotMachine =
  autoSpinActive :: bool
  autoSpinTimeout :: "nat option"
  pendingTimers :: "nat list"
  nextTimerId :: nat

text \<open>The constructor: \<open>autoSpinActive = false; autoSpinTimeout = null\<close>, no timer armed.\<close>

definition newSlotMachine :: slotMachine where
  "newSlotMachine =
     \<lparr>autoSpinActive = False, autoSpinTimeout = None, pendingTimers = [], nextTimerId = 1\<rparr>"

definition setTimeout :: "slotMachine \<Rightarrow> nat \<times> slotMachine" where
  "setTimeout m =
     (nextTimerId m,
      m\<lparr>pendingTimers := nextTimerId m # pendingTimers m, nextTimerId := Suc (nextTimerId m)\<rparr>)"

definition clearTimeout :: "nat \<Rightarrow> slotMachine \<Rightarrow> slotMachine" where
  "clearTimeout t m = m\<lparr>pendingTimers := removeAll t (pendingTimers m)\<rparr>"

text \<open>\<open>if (this.autoSpinTimeout)\<close> is false for \<open>null\<close> and for the number 0.\<close>

definition cancelAutoSpin :: "slotMachine \<Rightarrow> slotMachine" where
  "cancelAutoSpin m =
     (case autoSpinTimeout m of
        Some t \<Rightarrow> if t \<noteq> 0 then (clearTimeout t m)\<lparr>autoSpinTimeout := None\<rparr> else m
      | None \<Rightarrow> m)"

definition scheduleAutoSpin :: "slotMachine \<Rightarrow> slotMachine" where
  "scheduleAutoSpin m =
     (let m1 = cancelAutoSpin m; (t, m2) = setTimeout m1 in m2\<lparr>autoSpinTimeout := Some t\<rparr>)"

definition handleGameError :: "slotMachine \<Rightarrow> slotMachine" where
  "handleGameError m = (cancelAutoSpin m)\<lparr>autoSpinActive := False\<rparr>"

text \<open>
  What the event loop can run that touches these fields.
  \<^item> \<open>AutoSpinToggled active\<close>: the handler of \<open>auto_spin_toggled\<close> with \<open>data.active\<close>.
  \<^item> \<open>TimerFires t afford\<close>: the browser runs the callback of timeout \<open>t\<close>, if it is
    armed; \<open>afford\<close> is what \<open>gameState.canAffordSpin()\<close> does when the callback calls it.
  \<^item> \<open>SpinSettled afford\<close>: the end of \<open>handleSpinRequest\<close>, after its awaits:
    \<open>if (this.autoSpinActive && this.gameState.canAffordSpin()) this.scheduleAutoSpin()\<close>,
    inside the \<open>try\<close> whose \<open>catch\<close> emits \<open>ERROR\<close>, which \<open>handleGameError\<close> handles.
  \<^item> \<open>GameError\<close>: an \<open>ERROR\<close> event from elsewhere. \<open>ResetGame\<close>: \<open>resetGame()\<close>.
    \<open>Destroy\<close>: \<open>destroy()\<close>.
  \<^item> \<open>AppResetGame\<close>: \<open>SlotMachineApp.resetGame()\<close>, which writes
    \<open>this.slotMachine.autoSpinActive = false\<close> on the machine and cancels nothing.
  A step returns the machine afterwards and the number of \<open>SPIN_STARTED\<close> events the
  scheduler emitted during it.
\<close>

datatype event =
    AutoSpinToggled bool
  | TimerFires nat "jsError + bool"
  | SpinSettled "jsError + bool"
  | GameError
  | ResetGame
  | Destroy
  | AppResetGame

fun step :: "event \<Rightarrow> slotMachine \<Rightarrow> slotMachine \<times> nat" where
  "step (AutoSpinToggled active) m =
     (let m1 = m\<lparr>autoSpinActive := active\<rparr> in
      if autoSpinActive m1 then (scheduleAutoSpin m1, 0) else (cancelAutoSpin m1, 0))"
| "step (TimerFires t afford) m =
     (if t \<in> set (pendingTimers m)
      then (let m1 = m\<lparr>pendingTimers := removeAll t (pendingTimers m)\<rparr> in
            if autoSpinActive m1 \<and> afford = Inr True then (m1, 1) else (m1, 0))
      else (m, 0))"
| "step (SpinSettled afford) m =
     (if autoSpinActive m
      then (case afford of
              Inr True \<Rightarrow> (scheduleAutoSpin m, 0)
            | Inr False \<Rightarrow> (m, 0)
            | Inl e \<Rightarrow> (handleGameError m, 0))
      else (m, 0))"
| "step GameError m = (handleGameError m, 0)"
| "step ResetGame m = ((cancelAutoSpin m)\<lparr>autoSpinActive := False\<rparr>, 0)"
| "step Destroy m = (cancelAutoSpin m, 0)"
| "step AppResetGame m = (m\<lparr>autoSpinActive := False\<rparr>, 0)"

text \<open>A run of the event loop: the machine at the end and the number of \<open>SPIN_STARTED\<close> emitted.\<close>

fun run :: "event list \<Rightarrow> slotMachine \<Rightarrow> slotMachine \<times> nat" where
  "run [] m = (m, 0)"
| "run (e # es) m =
     (let (m1, n1) = step e m; (m2, n2) = run es m1 in (m2, n1 + n2))"


subsection \<open>\<open>InventoryManager\<close>\<close>

text \<open>
  \<open>src/inventory/inventory-manager.js\<close>. The class \<open>InventoryItem\<close>, whose methods the
  manager calls on the items it holds, is not among the sources: the manager is embedded
  for any item type \<open>'i\<close>, with the item methods it calls as the fields of \<open>itemOps\<close>.
  JavaScript items are mutable objects; a method that changes its receiver returns the
  receiver afterwards.
  \<^item> \<open>stackable\<close>, \<open>quantity\<close>: the properties read; \<open>setQuantity q item\<close>: the assignment
    \<open>item.quantity = q\<close>.
  \<^item> \<open>canStackWith a b\<close>: \<open>a.canStackWith(b)\<close>.
  \<^item> \<open>stackWith a b\<close>: \<open>a.stackWith(b)\<close>, the receiver afterwards and the returned
    remaining quantity.
  \<^item> \<open>splitOp a n\<close>: \<open>a.split(n)\<close>, \<open>None\<close> for \<open>null\<close>, else the receiver afterwards and the
    new item.
  \<^item> \<open>useOp a n\<close>: \<open>a.use(n)\<close>, the receiver afterwards and the returned success.
  \<^item> \<open>toJSON\<close>: \<open>a.toJSON()\<close>, into any type \<open>'j\<close> of serialized items.
  \<^item> \<open>keyLess sortBy a b\<close>: \<open>valueA < valueB\<close> for the values the \<open>switch (sortBy)\<close> of
    \<open>sortInventory\<close> reads from \<open>a\<close> and \<open>b\<close>.
  Calls into the game instance (its audio manager, achievement manager and state store),
  the DOM updates of \<open>refreshUI\<close> and \<open>animateSlot\<close>, and the log are outside the
  model: they neither read nor write the fields below. Slot indices and quantities are
  integers.
\<close>

record ('i, 'j) itemOps =
  stackable :: "'i \<Rightarrow> bool"
  quantity :: "'i \<Rightarrow> int"
  setQuantity :: "int \<Rightarrow> 'i \<Rightarrow> 'i"
  canStackWith :: "'i \<Rightarrow> 'i \<Rightarrow> bool"
  stackWith :: "'i \<Rightarrow> 'i \<Rightarrow> 'i \<times> int"
  splitOp :: "'i \<Rightarrow> int \<Rightarrow> ('i \<times> 'i) option"
  useOp :: "'i \<Rightarrow> int \<Rightarrow> 'i \<times> bool"
  toJSON :: "'i \<Rightarrow> 'j"
  keyLess :: "string \<Rightarrow> 'i \<Rightarrow> 'i \<Rightarrow> bool"

text \<open>
  What \<open>saveInventory\<close> stores: \<open>{slots, metadata: {savedAt, version, operationCount}}\<close>.
  The model keeps the object, not the text \<open>JSON.stringify\<close> makes of it.
\<close>

record 'j inventoryData =
  savedSlots :: "'j option list"
  savedAt :: nat
  version :: string
  savedOperationCount :: nat

text \<open>
  The manager. \<open>slots\<close> holds an item or \<open>null\<close> per slot. \<open>localStorage\<close> is the
  browser's store and \<open>storageWritable\<close> whether its \<open>setItem\<close> succeeds (it throws when
  the quota is exceeded or storage is disabled). \<open>dispatched\<close> lists the names of the
  \<open>inventory:\<close> events dispatched on the document, latest last.
\<close>

record ('i, 'j) inventoryManager =
  slots :: "'i option list"
  operationCount :: nat
  lastOperation :: "string option"
  currentSort :: string
  maxSlots :: nat
  autoStack :: bool
  storageKey :: string
  localStorage :: "string \<rightharpoonup> 'j inventoryData"
  storageWritable :: bool
  dispatched :: "string list"

text \<open>A manager as the constructor makes it with no options, over a given browser store.\<close>

definition newInventoryManager ::
  "(string \<rightharpoonup> 'j inventoryData) \<Rightarrow> bool \<Rightarrow> ('i, 'j) inventoryManager" where
  "newInventoryManager store writable =
     \<lparr>slots = replicate 40 None, operationCount = 0, lastOperation = None,
      currentSort = ''none'', maxSlots = 40, autoStack = True,
      storageKey = ''inventory-data'', localStorage = store, storageWritable = writable,
      dispatched = []\<rparr>"

text \<open>
  \<open>this.slots[index]\<close> read: \<open>undefined\<close> outside the array, which the code's tests
  (\<open>!item\<close>) treat as \<open>null\<close>. The exception is \<open>this.slots[targetSlot] !== null\<close> in
  \<open>addItem\<close>, true outside the array: \<open>slotIsNull\<close>.
\<close>

definition slotAt :: "'i option list \<Rightarrow> int \<Rightarrow> 'i option" where
  "slotAt sl index = (if 0 \<le> index \<and> index < int (length sl) then sl ! nat index else None)"

definition slotIsNull :: "'i option list \<Rightarrow> int \<Rightarrow> bool" where
  "slotIsNull sl index = (0 \<le> index \<and> index < int (length sl) \<and> sl ! nat index = None)"

text \<open>
  \<open>this.slots[index] = v\<close>. Every write of the manager is to an index below \<open>maxSlots\<close>,
  and the array is at least that long from the constructor on (\<open>wellFormed\<close>), so no write
  extends it.
\<close>

definition setSlot :: "int \<Rightarrow> 'i option \<Rightarrow> 'i option list \<Rightarrow> 'i option list" where
  "setSlot index v sl = sl[nat index := v]"

definition wellFormed :: "('i, 'j) inventoryManager \<Rightarrow> bool" where
  "wellFormed m = (maxSlots m \<le> length (slots m))"

definition trackOperation :: "string \<Rightarrow> ('i, 'j) inventoryManager \<Rightarrow> ('i, 'j) inventoryManager" where
  "trackOperation operation m =
     m\<lparr>operationCount := Suc (operationCount m), lastOperation := Some operation\<rparr>"

definition dispatchEvent :: "string \<Rightarrow> ('i, 'j) inventoryManager \<Rightarrow> ('i, 'j) inventoryManager" where
  "dispatchEvent eventName m = m\<lparr>dispatched := dispatched m @ [eventName]\<rparr>"

text \<open>
  \<open>saveInventory\<close>, at the time \<open>now\<close> (\<open>Date.now()\<close>). An exception of \<open>setItem\<close> is
  caught and logged, and nothing is stored or dispatched.
\<close>

definition saveInventory ::
  "('i, 'j) itemOps \<Rightarrow> nat \<Rightarrow> ('i, 'j) inventoryManager \<Rightarrow> ('i, 'j) inventoryManager" where
  "saveInventory ops now m =
     (let inventoryData =
            \<lparr>savedSlots = map (map_option (toJSON ops)) (slots m), savedAt = now,
             version = ''1.0.0'', savedOperationCount = operationCount m\<rparr>
      in if storageWritable m
         then dispatchEvent ''inventory:saved''
                (m\<lparr>localStorage := (localStorage m)(storageKey m \<mapsto> inventoryData)\<rparr>)
         else m)"

definition findEmptySlot :: "'i option list \<Rightarrow> int" where
  "findEmptySlot sl =
     (case find (\<lambda>i. sl ! i = None) [0..<length sl] of Some i \<Rightarrow> int i | None \<Rightarrow> - 1)"

text \<open>
  The loop of \<open>tryStackItem\<close> over the slots, from the first: the slots afterwards, and
  the remaining item, \<open>None\<close> when the item was fully stacked.
\<close>

fun tryStackItem :: "('i, 'j) itemOps \<Rightarrow> 'i option list \<Rightarrow> 'i \<Rightarrow> 'i option list \<times> 'i option" where
  "tryStackItem ops [] item = ([], Some item)"
| "tryStackItem ops (None # rest) item =
     (let (rest', r) = tryStackItem ops rest item in (None # rest', r))"
| "tryStackItem ops (Some slotItem # rest) item =
     (if canStackWith ops slotItem item
      then (let (slotItem', remaining) = stackWith ops slotItem item in
            if remaining = 0 then (Some slotItem' # rest, None)
            else (let (rest', r) = tryStackItem ops rest (setQuantity ops remaining item)
                  in (Some slotItem' # rest', r)))
      else (let (rest', r) = tryStackItem ops rest item in (Some slotItem # rest', r)))"

text \<open>\<open>addItem\<close> from \<open>// Find available slot\<close> on, for the item still to be placed.\<close>

definition addItem_place ::
  "('i, 'j) itemOps \<Rightarrow> 'i \<Rightarrow> int \<Rightarrow> nat \<Rightarrow> ('i, 'j) inventoryManager
   \<Rightarrow> bool \<times> ('i, 'j) inventoryManager" where
  "addItem_place ops item preferredSlot now m =
     (let targetSlot =
            (if preferredSlot = - 1 \<or> preferredSlot \<ge> int (maxSlots m)
                \<or> \<not> slotIsNull (slots m) preferredSlot
             then findEmptySlot (slots m) else preferredSlot)
      in if targetSlot = - 1
         then (False, dispatchEvent ''inventory:full'' m)
         else (True,
               dispatchEvent ''inventory:item-added''
                 (saveInventory ops now
                    (trackOperation ''addItem''
                       (m\<lparr>slots := setSlot targetSlot (Some item) (slots m)\<rparr>)))))"

text \<open>
  \<open>addItem(item, quantity, preferredSlot)\<close> for an item instance (for a template id the
  method first creates the item, then goes on the same way).
\<close>

definition addItem ::
  "('i, 'j) itemOps \<Rightarrow> 'i \<Rightarrow> int \<Rightarrow> nat \<Rightarrow> ('i, 'j) inventoryManager
   \<Rightarrow> bool \<times> ('i, 'j) inventoryManager" where
  "addItem ops item preferredSlot now m =
     (if autoStack m \<and> stackable ops item
      then (case tryStackItem ops (slots m) item of
              (sl, None) \<Rightarrow>
                (True, saveInventory ops now (trackOperation ''addItem'' (m\<lparr>slots := sl\<rparr>)))
            | (sl, Some remainingItem) \<Rightarrow>
                addItem_place ops remainingItem preferredSlot now (m\<lparr>slots := sl\<rparr>))
      else addItem_place ops item preferredSlot now m)"

definition removeItem ::
  "('i, 'j) itemOps \<Rightarrow> int \<Rightarrow> int \<Rightarrow> nat \<Rightarrow> ('i, 'j) inventoryManager
   \<Rightarrow> 'i option \<times> ('i, 'j) inventoryManager" where
  "removeItem ops slotIndex amount now m =
     (if slotIndex < 0 \<or> slotIndex \<ge> int (maxSlots m) then (None, m)
      else case slotAt (slots m) slotIndex of
        None \<Rightarrow> (None, m)
      | Some item \<Rightarrow>
          (let finish = (\<lambda>removedItem m1.
                 (Some removedItem,
                  dispatchEvent ''inventory:item-removed''
                    (saveInventory ops now (trackOperation ''removeItem'' m1))))
           in if amount = - 1 \<or> amount \<ge> quantity ops item
              then finish item (m\<lparr>slots := setSlot slotIndex None (slots m)\<rparr>)
              else (case splitOp ops item amount of
                      None \<Rightarrow> (None, m)
                    | Some (item', removedItem) \<Rightarrow>
                        finish removedItem (m\<lparr>slots := setSlot slotIndex (Some item') (slots m)\<rparr>))))"

definition moveItem ::
  "('i, 'j) itemOps \<Rightarrow> int \<Rightarrow> int \<Rightarrow> int \<Rightarrow> nat \<Rightarrow> ('i, 'j) inventoryManager
   \<Rightarrow> bool \<times> ('i, 'j) inventoryManager" where
  "moveItem ops fromSlot toSlot amount now m =
     (if fromSlot = toSlot then (True, m)
      else if fromSlot < 0 \<or> fromSlot \<ge> int (maxSlots m) then (False, m)
      else if toSlot < 0 \<or> toSlot \<ge> int (maxSlots m) then (False, m)
      else case slotAt (slots m) fromSlot of
        None \<Rightarrow> (False, m)
      | Some sourceItem \<Rightarrow>
          (let sl = slots m;
               sl' =
                 (case slotAt sl toSlot of
                    Some targetItem \<Rightarrow>
                      if canStackWith ops targetItem sourceItem
                      then (let (targetItem', remaining) = stackWith ops targetItem sourceItem;
                                sl1 = setSlot toSlot (Some targetItem') sl
                            in if remaining = 0 then setSlot fromSlot None sl1
                               else setSlot fromSlot (Some (setQuantity ops remaining sourceItem)) sl1)
                      else setSlot toSlot (Some sourceItem) (setSlot fromSlot (Some targetItem) sl)
                  | None \<Rightarrow>
                      if amount = - 1 \<or> amount \<ge> quantity ops sourceItem
                      then setSlot fromSlot None (setSlot toSlot (Some sourceItem) sl)
                      else (case splitOp ops sourceItem amount of
                              Some (sourceItem', splitItem) \<Rightarrow>
                                setSlot toSlot (Some splitItem) (setSlot fromSlot (Some sourceItem') sl)
                            | None \<Rightarrow> sl))
           in (True,
               dispatchEvent ''inventory:item-moved''
                 (saveInventory ops now (trackOperation ''moveItem'' (m\<lparr>slots := sl'\<rparr>))))))"

definition useItem ::
  "('i, 'j) itemOps \<Rightarrow> int \<Rightarrow> int \<Rightarrow> nat \<Rightarrow> ('i, 'j) inventoryManager
   \<Rightarrow> bool \<times> ('i, 'j) inventoryManager" where
  "useItem ops slotIndex amount now m =
     (case slotAt (slots m) slotIndex of
        None \<Rightarrow> (False, m)
      | Some item \<Rightarrow>
          (let (item', success) = useOp ops item amount in
           if success
           then (let sl = (if quantity ops item' \<le> 0 then setSlot slotIndex None (slots m)
                           else setSlot slotIndex (Some item') (slots m))
                 in (True,
                     dispatchEvent ''inventory:item-used''
                       (saveInventory ops now (trackOperation ''useItem'' (m\<lparr>slots := sl\<rparr>)))))
           else (False, m\<lparr>slots := setSlot slotIndex (Some item') (slots m)\<rparr>)))"

text \<open>
  \<open>Array.prototype.sort\<close> with a comparator is stable; it is modelled by insertion sort.
  The comparator of \<open>sortInventory\<close> returns a negative number where \<open>compareItems\<close> is
  \<open>-1\<close>.
\<close>

definition compareItems :: "('i, 'j) itemOps \<Rightarrow> string \<Rightarrow> bool \<Rightarrow> 'i \<Rightarrow> 'i \<Rightarrow> int" where
  "compareItems ops sortBy ascending a b =
     (if keyLess ops sortBy a b then (if ascending then - 1 else 1)
      else if keyLess ops sortBy b a then (if ascending then 1 else - 1)
      else 0)"

fun insertSorted :: "('a \<Rightarrow> 'a \<Rightarrow> int) \<Rightarrow> 'a \<Rightarrow> 'a list \<Rightarrow> 'a list" where
  "insertSorted cmp x [] = [x]"
| "insertSorted cmp x (y # ys) = (if cmp x y \<le> 0 then x # y # ys else y # insertSorted cmp x ys)"

definition arraySort :: "('a \<Rightarrow> 'a \<Rightarrow> int) \<Rightarrow> 'a list \<Rightarrow> 'a list" where
  "arraySort cmp xs = foldr (insertSorted cmp) xs []"

text \<open>
  \<open>sortInventory(sortBy, ascending)\<close>: the items, sorted, fill the slots from the first;
  the rest are \<open>null\<close>.
\<close>

definition sortInventory ::
  "('i, 'j) itemOps \<Rightarrow> string \<Rightarrow> bool \<Rightarrow> nat \<Rightarrow> ('i, 'j) inventoryManager
   \<Rightarrow> ('i, 'j) inventoryManager" where
  "sortInventory ops sortBy ascending now m =
     (let items = List.map_filter id (slots m);
          sorted = arraySort (compareItems ops sortBy ascending) items;
          sl = take (length (slots m)) (map Some sorted)
               @ replicate (length (slots m) - length sorted) None
      in dispatchEvent ''inventory:sorted''
           (saveInventory ops now
              (trackOperation ''sortInventory'' (m\<lparr>slots := sl, currentSort := sortBy\<rparr>))))"

text \<open>
  What the specification says each successful operation leaves in the store: under
  \<open>options.storageKey\<close>, the current slots, each item through \<open>toJSON\<close> and each empty
  slot \<open>null\<close>, with the metadata.
\<close>

definition spec_persisted ::
  "('i, 'j) itemOps \<Rightarrow> nat \<Rightarrow> ('i, 'j) inventoryManager \<Rightarrow> bool" where
  "spec_persisted ops now m =
     (localStorage m (storageKey m) =
        Some \<lparr>savedSlots = map (map_option (toJSON ops)) (slots m), savedAt = now,
              version = ''1.0.0'', savedOperationCount = operationCount m\<rparr>)"

text \<open>
  Modelled from the spec: the class \<open>InventoryItem\<close> (\<open>canStackWith\<close>, \<open>stackWith\<close>,
  \<open>split\<close>, \<open>use\<close>, \<open>toJSON\<close>) is missing from the sources and the specification does
  not describe it. \<open>stackItem\<close> and \<open>stackOps\<close> are an instance used only to evaluate the
  manager on concrete inventories. They follow the contract under which the manager
  calls the class: \<open>stackWith\<close> moves into the receiver as much of the other item's
  quantity as the receiver's stack has room for and returns what is left (\<open>moveItem\<close>
  drops the source item when it returns 0); two items stack when they are stackable, of
  the same kind, and the receiver is not full.
\<close>

record stackItem =
  kind :: string
  count :: int
  maxStackSize :: int
  isStackable :: bool

definition stackOps :: "(stackItem, stackItem) itemOps" where
  "stackOps =
     \<lparr>stackable = isStackable,
      quantity = count,
      setQuantity = (\<lambda>q a. a\<lparr>count := q\<rparr>),
      canStackWith = (\<lambda>a b. isStackable a \<and> isStackable b \<and> kind a = kind b
                             \<and> count a < maxStackSize a),
      stackWith = (\<lambda>a b. let moved = min (count b) (maxStackSize a - count a)
                          in (a\<lparr>count := count a + moved\<rparr>, count b - moved)),
      splitOp = (\<lambda>a n. if 0 < n \<and> n < count a
                        then Some (a\<lparr>count := count a - n\<rparr>, a\<lparr>count := n\<rparr>) else None),
      useOp = (\<lambda>a n. if 0 < n \<and> n \<le> count a then (a\<lparr>count := count a - n\<rparr>, True)
                      else (a, False)),
      toJSON = (\<lambda>a. a),
      keyLess = (\<lambda>sortBy a b. sortBy = ''quantity'' \<and> count a < count b)\<rparr>"

definition potion :: "int \<Rightarrow> stackItem" where
  "potion n = \<lparr>kind = ''health_potion'', count = n, maxStackSize = 20, isStackable = True\<rparr>"

definition sword :: stackItem where
  "sword = \<lparr>kind = ''iron_sword'', count = 1, maxStackSize = 1, isStackable = False\<rparr>"

text \<open>
  A full inventory of two slots (\<open>new InventoryManager(game, {maxSlots: 2})\<close>, then 18
  potions and a sword added), over an empty store.
\<close>

definition twoSlots :: "(stackItem, stackItem) inventoryManager" where
  "twoSlots =
     \<lparr>slots = [Some (potion 18), Some sword], operationCount = 2,
      lastOperation = Some ''addItem'', currentSort = ''none'', maxSlots = 2,
      autoStack = True, storageKey = ''inventory-data'', localStorage = Map.empty,
      storageWritable = True, dispatched = []\<rparr>"

subsection \<open>Operations in the browser\<close>









section \<open>Proofs: the slot machine\<close>

subsection \<open>The selection loop\<close>





subsection \<open>The winning-symbol generator\<close>

lemmas symbol_defs = CHERRY_def LEMON_def ORANGE_def GRAPES_def STRAWBERRY_def GEM_def SLOT_def STAR_def













text \<open>
  The generator on a new game (luck meter 0, where the double arithmetic of the source is
  exact): the thresholds are the cumulative base probabilities 800, 1300, 1600, 1750, 1830,
  1860, 1870 and 1875, and every draw from 1875 on falls back to the cherry.
\<close>

lemma selectWinningSymbol_examples:
  "selectWinningSymbolFor reset 0 = CHERRY
   \<and> selectWinningSymbolFor reset 799 = CHERRY
   \<and> selectWinningSymbolFor reset 800 = LEMON
   \<and> selectWinningSymbolFor reset 1869 = SLOT
   \<and> selectWinningSymbolFor reset 1874 = STAR
   \<and> selectWinningSymbolFor reset 9999 = CHERRY"
  by (simp add: selectWinningSymbolFor_def SYMBOL_PROBABILITIES_def adjustedProbability_def
      reset_def Let_def TOTAL_BASE_WIN_PROBABILITY_def)

subsection \<open>Spin results and payouts\<close>





subsection \<open>The rejection loop ends when the draws are not constant\<close>








text \<open>
  Claim C2. \<open>getMaxLuck()\<close> is \<open>SLOT_CONFIG.MAX_LUCK\<close> plus 25 for each level of the
  \<open>MAX_LUCK\<close> upgrade, and in every game state with \<open>luckMeter \<ge> getMaxLuck()\<close>
  \<open>calculateSpinResult\<close> returns the luck jackpot whatever the random source is (and
  draws nothing from it): type \<open>"luck_jackpot"\<close>, three stars, \<open>winSymbol\<close> the star,
  \<open>payout\<close> the entry of the star in \<open>SLOT_CONFIG.PAYOUTS\<close>.
\<close>

theorem luck_jackpot_result:
  "getMaxLuck g = MAX_LUCK + 25 * of_nat (luck_MAX_LUCK (luck (upgrades g)))
   \<and> (luckMeter g \<ge> getMaxLuck g \<longrightarrow>
        (\<forall>rng i. calculateSpinResult rng i g =
           Some (\<lparr>type = ''luck_jackpot'', resultSymbols = [STAR, STAR, STAR],
                   winSymbol = Some STAR, payout = map_of PAYOUTS STAR\<rparr>, i))
        \<and> map_of PAYOUTS STAR =
            Some \<lparr>basePayout = 1000, name = ''MEGA JACKPOT!'', isJackpot = True\<rparr>)"
  by (simp add: getMaxLuck_def calculateSpinResult_def PAYOUTS_def symbol_defs)

theorem luck_jackpot_result_witness:
  "luckMeter (reset\<lparr>luckMeter := 100\<rparr>) \<ge> getMaxLuck (reset\<lparr>luckMeter := 100\<rparr>)
   \<and> calculateSpinResult (\<lambda>n. 0) 0 (reset\<lparr>luckMeter := 100\<rparr>) =
       Some (\<lparr>type = ''luck_jackpot'', resultSymbols = [STAR, STAR, STAR],
               winSymbol = Some STAR,
               payout = Some \<lparr>basePayout = 1000, name = ''MEGA JACKPOT!'', isJackpot = True\<rparr>\<rparr>, 0)"
proof -
  have h: "luckMeter (reset\<lparr>luckMeter := 100\<rparr>) \<ge> getMaxLuck (reset\<lparr>luckMeter := 100\<rparr>)"
    by (simp add: getMaxLuck_def reset_def MAX_LUCK_def)
  with luck_jackpot_result[of "reset\<lparr>luckMeter := 100\<rparr>"] show ?thesis by simp
qed


subsection \<open>\<open>processSpin\<close>\<close>






subsection \<open>Serialization\<close>

text \<open>
  Claim C5 says that \<open>deserialize\<close> applied to \<open>serialize(g)\<close> restores \<open>g\<close> and that
  \<open>canAffordSpin()\<close> still works on the result. The code does restore the data fields, but
  \<open>serialize\<close> also writes a boolean under the key \<open>canAffordSpin\<close>, which
  \<open>Object.assign\<close> copies onto the object, where it shadows the method: on a new game
  (\<open>reset\<close>), \<open>deserialize\<close> itself throws a \<open>TypeError\<close> from its
  \<open>emitStateChange\<close>, and so does every later call of \<open>canAffordSpin()\<close>.
\<close>

theorem roundtrip_shadows_canAffordSpin:
  "canAffordSpin reset = Inr True
   \<and> (\<exists>d. serialize reset = Inr d
        \<and> credits (fst (deserialize reset d)) = credits reset
        \<and> upgrades (fst (deserialize reset d)) = upgrades reset
        \<and> snd (deserialize reset d) = Inl (TypeError ''this.canAffordSpin is not a function'')
        \<and> canAffordSpin (fst (deserialize reset d))
             = Inl (TypeError ''this.canAffordSpin is not a function''))"
  by (simp add: canAffordSpin_def serialize_def deserialize_def assign_def emitStateChange_def
      reset_def BASE_COST_def INITIAL_CREDITS_def Let_def)

text \<open>
  Extra X2. The same for every game state that has the method unshadowed, and whatever
  state the data is loaded into: \<open>serialize\<close> succeeds, \<open>deserialize\<close> restores all
  twelve data fields, then throws; and \<open>canAffordSpin()\<close> throws from then on.
\<close>

theorem roundtrip_general:
  "own_canAffordSpin g = None \<longrightarrow>
     (\<exists>d. serialize g = Inr d
        \<and> canAffordSpin_key d = (credits g \<ge> BASE_COST * betMultiplier g)
        \<and> stateData.truncate (fst (deserialize h d)) = stateData.truncate g
        \<and> snd (deserialize h d) = Inl (TypeError ''this.canAffordSpin is not a function'')
        \<and> canAffordSpin (fst (deserialize h d))
             = Inl (TypeError ''this.canAffordSpin is not a function''))"
  by (simp add: canAffordSpin_def serialize_def deserialize_def assign_def emitStateChange_def
      stateData.truncate_def Let_def)

theorem roundtrip_general_witness:
  "own_canAffordSpin reset = None
   \<and> (\<exists>d. serialize reset = Inr d
        \<and> snd (deserialize (reset\<lparr>credits := 0\<rparr>) d)
            = Inl (TypeError ''this.canAffordSpin is not a function''))"
proof -
  have h: "own_canAffordSpin reset = None" by (simp add: reset_def)
  with roundtrip_general[of reset "reset\<lparr>credits := 0\<rparr>"] show ?thesis by blast
qed

subsection \<open>The legacy generator\<close>

text \<open>
  Claim C8 says that the legacy \<open>PaytableManager.selectWinningSymbol\<close> and
  \<open>GameEngine.selectWinningSymbol\<close> select the same symbol for every luck meter and
  draw. The two loops are the same, but where no running sum exceeds the draw the legacy
  function returns the mis-encoded string of its last line, not the cherry: on a new game
  and the draw 1875 the two differ. The total win chances agree.
\<close>

theorem legacy_fallback_differs:
  "selectWinningSymbolFor reset 1875 = CHERRY
   \<and> PaytableManager_selectWinningSymbolFor (Some reset) 1875 = LEGACY_FALLBACK
   \<and> LEGACY_FALLBACK \<noteq> CHERRY
   \<and> PaytableManager_calculateTotalWinChance (Some reset) = calculateTotalWinChance reset"
  by (simp add: selectWinningSymbolFor_def PaytableManager_selectWinningSymbolFor_def
      PaytableManager_calculateTotalWinChance_def calculateTotalWinChance_def
      SYMBOL_PROBABILITIES_def adjustedProbability_def reset_def Let_def
      TOTAL_BASE_WIN_PROBABILITY_def LEGACY_FALLBACK_def CHERRY_def)

text \<open>
  Extra X3. The two generators agree wherever the loop selects a symbol, and the two
  total win chances agree; a legacy manager without a slot machine selects as one whose
  luck meter is 0.
\<close>

theorem legacy_agrees_where_loop_selects:
  "PaytableManager_calculateTotalWinChance (Some g) = calculateTotalWinChance g
   \<and> PaytableManager_selectWinningSymbolFor (Some g) r =
       (case selectLoop SYMBOL_PROBABILITIES
               (adjustedProbability (luckMeter g * LUCK_BONUS_MULTIPLIER * 100)) r 0 of
          Some symbol \<Rightarrow> selectWinningSymbolFor g r
        | None \<Rightarrow> LEGACY_FALLBACK)
   \<and> PaytableManager_selectWinningSymbolFor None r = PaytableManager_selectWinningSymbolFor (Some (g\<lparr>luckMeter := 0\<rparr>)) r"
  by (simp add: PaytableManager_calculateTotalWinChance_def calculateTotalWinChance_def
      PaytableManager_selectWinningSymbolFor_def selectWinningSymbolFor_def Let_def
      split: option.split)

section \<open>Proofs: the panels\<close>

lemmas panel_defs = panelOf_def buttonOf_def setPanel_def setButton_def closeCurrent_def
  displayed_def renderUpgrades_def












text \<open>Two clicks, on a page as it is first shown: the second panel replaces the first.\<close>

lemma togglePanels_example:
  "activePanel (togglePanels [''upgrades'', ''stats''] hiddenPanels) = Some ''stats''
   \<and> displayed (togglePanels [''upgrades'', ''stats''] hiddenPanels) ''stats''
   \<and> \<not> displayed (togglePanels [''upgrades'', ''stats''] hiddenPanels) ''upgrades''
   \<and> emitted (togglePanels [''upgrades'', ''stats''] hiddenPanels) = [(''render_upgrades'', ''symbols'')]"
  by (simp add: togglePanels_def togglePanel_def hiddenPanels_def panel_defs Let_def)


section \<open>Proofs: the auto-spin scheduler\<close>












lemma cancelAutoSpin_active [simp]: "autoSpinActive (cancelAutoSpin m) = autoSpinActive m"
  by (simp add: cancelAutoSpin_def clearTimeout_def split: option.split)







text \<open>
  \<open>SlotMachineApp.resetGame\<close> turns auto-spin off without cancelling: the timeout stays
  armed, and it is the test in its callback that keeps it from emitting.
\<close>

lemma armed_timeout_after_app_reset:
  "run [AutoSpinToggled True, AppResetGame] newSlotMachine =
     (\<lparr>autoSpinActive = False, autoSpinTimeout = Some 1, pendingTimers = [1], nextTimerId = 2\<rparr>, 0)
   \<and> run [AutoSpinToggled True, AppResetGame, TimerFires 1 (Inr True)] newSlotMachine =
     (\<lparr>autoSpinActive = False, autoSpinTimeout = Some 1, pendingTimers = [], nextTimerId = 2\<rparr>, 0)"
  by (simp add: newSlotMachine_def scheduleAutoSpin_def cancelAutoSpin_def setTimeout_def Let_def)

section \<open>Proofs: the inventory\<close>

lemma saveInventory_persisted:
  "storageWritable m \<Longrightarrow> spec_persisted ops now (saveInventory ops now m)"
  by (simp add: spec_persisted_def saveInventory_def dispatchEvent_def Let_def)

lemma dispatchEvent_persisted [simp]:
  "spec_persisted ops now (dispatchEvent n m) = spec_persisted ops now m"
  by (simp add: spec_persisted_def dispatchEvent_def)

lemma trackOperation_writable [simp]:
  "storageWritable (trackOperation n m) = storageWritable m"
  by (simp add: trackOperation_def)

lemma saved_after_track:
  "storageWritable m \<Longrightarrow> spec_persisted ops now (saveInventory ops now (trackOperation n m))"
  by (rule saveInventory_persisted) simp

lemma addItem_place_persists:
  "storageWritable m \<Longrightarrow> addItem_place ops item p now m = (True, m') \<Longrightarrow> spec_persisted ops now m'"
  by (auto simp: addItem_place_def Let_def saved_after_track split: if_splits)

lemma addItem_persists:
  assumes "storageWritable m" and "addItem ops item p now m = (True, m')"
  shows "spec_persisted ops now m'"
proof (cases "autoStack m \<and> stackable ops item")
  case False
  with assms show ?thesis by (auto simp: addItem_def intro: addItem_place_persists)
next
  case True
  obtain sl r where t: "tryStackItem ops (slots m) item = (sl, r)"
    by (cases "tryStackItem ops (slots m) item")
  show ?thesis
  proof (cases r)
    case None
    with assms True t show ?thesis by (auto simp: addItem_def saved_after_track)
  next
    case (Some rest)
    with assms True t have "addItem_place ops rest p now (m\<lparr>slots := sl\<rparr>) = (True, m')"
      by (simp add: addItem_def)
    moreover from assms have "storageWritable (m\<lparr>slots := sl\<rparr>)" by simp
    ultimately show ?thesis by (rule addItem_place_persists[rotated])
  qed
qed

lemma removeItem_persists:
  "storageWritable m \<Longrightarrow> removeItem ops i n now m = (Some r, m') \<Longrightarrow> spec_persisted ops now m'"
  by (auto simp: removeItem_def Let_def saved_after_track split: if_splits option.splits)

lemma moveItem_persists:
  "storageWritable m \<Longrightarrow> f \<noteq> t \<Longrightarrow> moveItem ops f t n now m = (True, m') \<Longrightarrow>
   spec_persisted ops now m'"
  by (auto simp: moveItem_def Let_def saved_after_track split: if_splits option.splits)

lemma useItem_persists:
  "storageWritable m \<Longrightarrow> useItem ops i n now m = (True, m') \<Longrightarrow> spec_persisted ops now m'"
  by (auto simp: useItem_def Let_def saved_after_track split: if_splits option.splits prod.splits)

lemma sortInventory_persists:
  "storageWritable m \<Longrightarrow> spec_persisted ops now (sortInventory ops sortBy asc now m)"
  by (simp add: sortInventory_def Let_def saved_after_track)


text \<open>
  Claim C4, as amended. The constructor's default \<open>storageKey\<close> is
  \<open>"inventory-data"\<close>. In a manager whose \<open>localStorage.setItem\<close> succeeds, every
  successful mutating operation (\<open>addItem\<close> returning true, \<open>removeItem\<close> returning an
  item, \<open>moveItem\<close> returning true for two different slots, \<open>useItem\<close> returning true,
  and \<open>sortInventory\<close>) leaves in \<open>localStorage\<close>, under \<open>options.storageKey\<close>, the
  slots as they are after the operation, each item through \<open>toJSON\<close> and each empty slot
  \<open>null\<close>, with \<open>savedAt\<close>, \<open>version\<close> and the \<open>operationCount\<close> after the operation.
\<close>

theorem operations_persist:
  "storageKey (newInventoryManager store writable :: ('i, 'j) inventoryManager) = ''inventory-data''
   \<and> (wellFormed m \<and> storageWritable m \<longrightarrow>
        (\<forall>m'. addItem ops item p now m = (True, m') \<longrightarrow> spec_persisted ops now m')
        \<and> (\<forall>r m'. removeItem ops ri rn now m = (Some r, m') \<longrightarrow> spec_persisted ops now m')
        \<and> (\<forall>m'. f \<noteq> t \<and> moveItem ops f t mn now m = (True, m') \<longrightarrow> spec_persisted ops now m')
        \<and> (\<forall>m'. useItem ops ui un now m = (True, m') \<longrightarrow> spec_persisted ops now m')
        \<and> spec_persisted ops now (sortInventory ops sortBy ascending now m))"
  for m :: "('i, 'j) inventoryManager"
  using addItem_persists[of m ops item p now] removeItem_persists[of m ops ri rn now]
    moveItem_persists[of m f t ops mn now] useItem_persists[of m ops ui un now]
    sortInventory_persists[of m ops now sortBy ascending]
  by (simp add: newInventoryManager_def)

lemmas stack_defs = stackOps_def potion_def sword_def twoSlots_def

lemma twoSlots_use:
  "useItem stackOps 0 1 7 twoSlots =
     (True, twoSlots\<lparr>slots := [Some (potion 17), Some sword], operationCount := 3,
        lastOperation := Some ''useItem'',
        localStorage := [''inventory-data'' \<mapsto>
          \<lparr>savedSlots = [Some (potion 17), Some sword], savedAt = 7, version = ''1.0.0'',
           savedOperationCount = 3\<rparr>],
        dispatched := [''inventory:saved'', ''inventory:item-used'']\<rparr>)"
  by (simp add: useItem_def slotAt_def setSlot_def saveInventory_def trackOperation_def
      dispatchEvent_def stack_defs Let_def)

lemma twoSlots_move:
  "moveItem stackOps 0 1 (- 1) 7 twoSlots =
     (True, twoSlots\<lparr>slots := [Some sword, Some (potion 18)], operationCount := 3,
        lastOperation := Some ''moveItem'',
        localStorage := [''inventory-data'' \<mapsto>
          \<lparr>savedSlots = [Some sword, Some (potion 18)], savedAt = 7, version = ''1.0.0'',
           savedOperationCount = 3\<rparr>],
        dispatched := [''inventory:saved'', ''inventory:item-moved'']\<rparr>)"
  by (simp add: moveItem_def slotAt_def setSlot_def saveInventory_def trackOperation_def
      dispatchEvent_def stack_defs Let_def)

lemma twoSlots_remove:
  "fst (removeItem stackOps 1 (- 1) 7 twoSlots) = Some sword"
  by (simp add: removeItem_def slotAt_def setSlot_def saveInventory_def trackOperation_def
      dispatchEvent_def stack_defs Let_def)

lemma twoSlots_add:
  "fst (addItem stackOps (potion 2) (- 1) 7 twoSlots) = True"
  by (simp add: addItem_def saveInventory_def trackOperation_def
      dispatchEvent_def stack_defs Let_def)

theorem operations_persist_witness:
  "wellFormed twoSlots \<and> storageWritable twoSlots
   \<and> fst (addItem stackOps (potion 2) (- 1) 7 twoSlots) = True
   \<and> spec_persisted stackOps 7 (snd (addItem stackOps (potion 2) (- 1) 7 twoSlots))
   \<and> fst (removeItem stackOps 1 (- 1) 7 twoSlots) = Some sword
   \<and> spec_persisted stackOps 7 (snd (removeItem stackOps 1 (- 1) 7 twoSlots))
   \<and> (0::int) \<noteq> 1 \<and> fst (moveItem stackOps 0 1 (- 1) 7 twoSlots) = True
   \<and> spec_persisted stackOps 7 (snd (moveItem stackOps 0 1 (- 1) 7 twoSlots))
   \<and> fst (useItem stackOps 0 1 7 twoSlots) = True
   \<and> spec_persisted stackOps 7 (snd (useItem stackOps 0 1 7 twoSlots))"
proof -
  have wf: "wellFormed twoSlots \<and> storageWritable twoSlots"
    by (simp add: wellFormed_def twoSlots_def)
  have a: "fst (addItem stackOps (potion 2) (- 1) 7 twoSlots) = True" by (rule twoSlots_add)
  have r: "fst (removeItem stackOps 1 (- 1) 7 twoSlots) = Some sword" by (rule twoSlots_remove)
  have mv: "fst (moveItem stackOps 0 1 (- 1) 7 twoSlots) = True" by (simp only: twoSlots_move fst_conv)
  have u: "fst (useItem stackOps 0 1 7 twoSlots) = True" by (simp only: twoSlots_use fst_conv)
  have a': "addItem stackOps (potion 2) (- 1) 7 twoSlots
      = (True, snd (addItem stackOps (potion 2) (- 1) 7 twoSlots))"
    by (simp only: a[symmetric] prod.collapse)
  have r': "removeItem stackOps 1 (- 1) 7 twoSlots
      = (Some sword, snd (removeItem stackOps 1 (- 1) 7 twoSlots))"
    by (simp only: r[symmetric] prod.collapse)
  have mv': "moveItem stackOps 0 1 (- 1) 7 twoSlots
      = (True, snd (moveItem stackOps 0 1 (- 1) 7 twoSlots))"
    by (simp only: mv[symmetric] prod.collapse)
  have u': "useItem stackOps 0 1 7 twoSlots = (True, snd (useItem stackOps 0 1 7 twoSlots))"
    by (simp only: u[symmetric] prod.collapse)
  have ne: "(0::int) \<noteq> 1" by simp
  note inst = operations_persist[where m = twoSlots and ops = stackOps and item = "potion 2"
      and p = "- 1" and now = 7 and ri = 1 and rn = "- 1" and f = 0 and t = 1 and mn = "- 1"
      and ui = 0 and un = 1]
  from inst wf a' have pa: "spec_persisted stackOps 7 (snd (addItem stackOps (potion 2) (- 1) 7 twoSlots))"
    by blast
  from inst wf r' have pr: "spec_persisted stackOps 7 (snd (removeItem stackOps 1 (- 1) 7 twoSlots))"
    by blast
  from inst wf mv' ne have pm: "spec_persisted stackOps 7 (snd (moveItem stackOps 0 1 (- 1) 7 twoSlots))"
    by blast
  from inst wf u' have pu: "spec_persisted stackOps 7 (snd (useItem stackOps 0 1 7 twoSlots))"
    by blast
  from wf a pa r pr ne mv pm u pu show ?thesis by blast
qed

text \<open>
  Claim C4 as stated fails twice, each time by a guard the code has on purpose:
  \<open>moveItem\<close> returns true at once when the two slots are the same, and writes nothing;
  and \<open>saveInventory\<close> catches the exception of a store that cannot be written, so the
  operation still returns true with nothing stored.
\<close>

theorem not_every_success_persists:
  "moveItem stackOps 0 0 (- 1) 7 twoSlots = (True, twoSlots)
   \<and> localStorage twoSlots (storageKey twoSlots) = None
   \<and> \<not> spec_persisted stackOps 7 twoSlots
   \<and> fst (useItem stackOps 0 1 7 (twoSlots\<lparr>storageWritable := False\<rparr>)) = True
   \<and> localStorage (snd (useItem stackOps 0 1 7 (twoSlots\<lparr>storageWritable := False\<rparr>)))
        (storageKey twoSlots) = None"
  by (simp add: moveItem_def useItem_def slotAt_def setSlot_def saveInventory_def trackOperation_def
      dispatchEvent_def spec_persisted_def stack_defs Let_def)

text \<open>
  Claim C6 says that \<open>addItem\<close> leaves the inventory unchanged when it returns false for
  want of an empty slot. With auto-stacking, \<open>tryStackItem\<close> has by then moved part of
  the item into the stacks that had room: adding 5 potions to a full inventory whose first
  slot holds 18 of 20 returns false, yet the slot then holds 20. Nothing is saved.
\<close>

theorem addItem_full_after_partial_stack:
  "addItem stackOps (potion 5) (- 1) 7 twoSlots =
     (False, twoSlots\<lparr>slots := [Some (potion 20), Some sword],
                      dispatched := [''inventory:full'']\<rparr>)
   \<and> findEmptySlot (slots twoSlots) = - 1
   \<and> slots twoSlots = [Some (potion 18), Some sword]
   \<and> localStorage (snd (addItem stackOps (potion 5) (- 1) 7 twoSlots)) = Map.empty"
  by (simp add: addItem_def addItem_place_def findEmptySlot_def slotIsNull_def
      dispatchEvent_def stack_defs Let_def)

lemma tryStackItem_nothing_stacks:
  "\<forall>x. Some x \<in> set sl \<longrightarrow> \<not> canStackWith ops x item \<Longrightarrow>
   tryStackItem ops sl item = (sl, Some item)"
proof (induction sl)
  case Nil
  then show ?case by simp
next
  case (Cons s sl)
  then have ih: "tryStackItem ops sl item = (sl, Some item)" by simp
  show ?case
  proof (cases s)
    case None
    with ih show ?thesis by simp
  next
    case (Some x)
    with Cons.prems have "\<not> canStackWith ops x item" by simp
    with Some ih show ?thesis by simp
  qed
qed

lemma addItem_place_failure:
  "addItem_place ops item p now m = (False, m') \<Longrightarrow>
   slots m' = slots m \<and> localStorage m' = localStorage m \<and> operationCount m' = operationCount m"
  by (auto simp: addItem_place_def dispatchEvent_def Let_def split: if_splits)

text \<open>
  Extra X1. What \<open>addItem\<close> does leave alone when it returns false: the store and the
  operation count; and the slots are those \<open>tryStackItem\<close> left (the slots before the
  call, when auto-stacking is off or the item is not stackable). When no item of the
  inventory can stack with the added one, \<open>tryStackItem\<close> changes no slot, and the failed
  call leaves the inventory as it was.
\<close>

theorem addItem_failure_frame:
  "(addItem ops item p now m = (False, m') \<longrightarrow>
      slots m' = (if autoStack m \<and> stackable ops item
                  then fst (tryStackItem ops (slots m) item) else slots m)
      \<and> localStorage m' = localStorage m \<and> operationCount m' = operationCount m)
   \<and> ((\<forall>x. Some x \<in> set (slots m) \<longrightarrow> \<not> canStackWith ops x item) \<longrightarrow>
        fst (tryStackItem ops (slots m) item) = slots m)"
proof -
  have a: "slots m' = (if autoStack m \<and> stackable ops item
                  then fst (tryStackItem ops (slots m) item) else slots m)
      \<and> localStorage m' = localStorage m \<and> operationCount m' = operationCount m"
    if f: "addItem ops item p now m = (False, m')"
  proof (cases "autoStack m \<and> stackable ops item")
    case False
    with f have "addItem_place ops item p now m = (False, m')" by (auto simp: addItem_def)
    from addItem_place_failure[OF this] False show ?thesis by auto
  next
    case True
    obtain sl r where t: "tryStackItem ops (slots m) item = (sl, r)"
      by (cases "tryStackItem ops (slots m) item")
    show ?thesis
    proof (cases r)
      case None
      with f True t show ?thesis by (simp add: addItem_def)
    next
      case (Some rest)
      with f True t have "addItem_place ops rest p now (m\<lparr>slots := sl\<rparr>) = (False, m')"
        by (simp add: addItem_def)
      from addItem_place_failure[OF this] True t show ?thesis by auto
    qed
  qed
  have b: "fst (tryStackItem ops (slots m) item) = slots m"
    if "\<forall>x. Some x \<in> set (slots m) \<longrightarrow> \<not> canStackWith ops x item"
    using tryStackItem_nothing_stacks[OF that] by simp
  from a b show ?thesis by blast
qed

lemma twoSlots_add_sword:
  "addItem stackOps sword (- 1) 7 twoSlots = (False, twoSlots\<lparr>dispatched := [''inventory:full'']\<rparr>)"
  by (simp add: addItem_def addItem_place_def findEmptySlot_def slotIsNull_def
      dispatchEvent_def stack_defs Let_def)

theorem addItem_failure_frame_witness:
  "addItem stackOps sword (- 1) 7 twoSlots = (False, twoSlots\<lparr>dispatched := [''inventory:full'']\<rparr>)
   \<and> \<not> canStackWith stackOps (potion 18) sword \<and> \<not> canStackWith stackOps sword sword
   \<and> slots (twoSlots\<lparr>dispatched := [''inventory:full'']\<rparr>) = slots twoSlots
   \<and> fst (tryStackItem stackOps (slots twoSlots) sword) = slots twoSlots"
proof -
  have c: "\<not> canStackWith stackOps (potion 18) sword \<and> \<not> canStackWith stackOps sword sword"
    by (simp add: stack_defs)
  then have h: "\<forall>x. Some x \<in> set (slots twoSlots) \<longrightarrow> \<not> canStackWith stackOps x sword"
    by (auto simp: twoSlots_def)
  from c h twoSlots_add_sword
    addItem_failure_frame[of stackOps sword "- 1" 7 twoSlots "twoSlots\<lparr>dispatched := [''inventory:full'']\<rparr>"]
  show ?thesis by simp
qed

subsection \<open>The operations keep the slots array at its length\<close>

text \<open>
  Every operation leaves a well-formed manager well formed: the array never gets shorter
  than \<open>maxSlots\<close>, so the writes of the next operation are within it too.
\<close>

lemma length_tryStackItem: "length (fst (tryStackItem ops sl item)) = length sl"
  by (induction ops sl item rule: tryStackItem.induct) (auto simp: Let_def split: prod.splits)

lemma length_insertSorted: "length (insertSorted cmp x xs) = Suc (length xs)"
  by (induction xs) auto

lemma length_arraySort: "length (arraySort cmp xs) = length xs"
  unfolding arraySort_def by (induction xs) (auto simp: length_insertSorted)

lemma length_map_filter_le: "length (List.map_filter f xs) \<le> length xs"
  by (simp add: List.map_filter_def)

lemma saveInventory_frame [simp]:
  "slots (saveInventory ops now m) = slots m" "maxSlots (saveInventory ops now m) = maxSlots m"
  by (simp_all add: saveInventory_def dispatchEvent_def Let_def)

lemma dispatchEvent_frame [simp]:
  "slots (dispatchEvent n m) = slots m" "maxSlots (dispatchEvent n m) = maxSlots m"
  by (simp_all add: dispatchEvent_def)

lemma trackOperation_frame [simp]:
  "slots (trackOperation n m) = slots m" "maxSlots (trackOperation n m) = maxSlots m"
  by (simp_all add: trackOperation_def)

lemma addItem_place_wellFormed:
  "wellFormed m \<Longrightarrow> wellFormed (snd (addItem_place ops item p now m))"
  by (simp add: wellFormed_def addItem_place_def setSlot_def Let_def)

lemma operations_wellFormed:
  assumes "wellFormed m"
  shows "wellFormed (snd (addItem ops item p now m))"
    and "wellFormed (snd (removeItem ops ri rn now m))"
    and "wellFormed (snd (moveItem ops f t mn now m))"
    and "wellFormed (snd (useItem ops ui un now m))"
    and "wellFormed (sortInventory ops sortBy ascending now m)"
proof -
  have "wellFormed (m\<lparr>slots := fst (tryStackItem ops (slots m) item)\<rparr>)"
    using assms by (simp add: wellFormed_def length_tryStackItem)
  then show "wellFormed (snd (addItem ops item p now m))"
    using assms addItem_place_wellFormed[of "m\<lparr>slots := fst (tryStackItem ops (slots m) item)\<rparr>" ops _ p now]
      addItem_place_wellFormed[of m ops item p now]
    by (auto simp: addItem_def wellFormed_def split: prod.splits option.splits)
  show "wellFormed (snd (removeItem ops ri rn now m))"
    using assms
    by (auto simp: removeItem_def wellFormed_def setSlot_def Let_def split: option.splits)
  show "wellFormed (snd (moveItem ops f t mn now m))"
    using assms
    by (auto simp: moveItem_def wellFormed_def setSlot_def Let_def split: option.splits prod.splits)
  show "wellFormed (snd (useItem ops ui un now m))"
    using assms
    by (auto simp: useItem_def wellFormed_def setSlot_def Let_def split: option.splits prod.splits)
  have "length (List.map_filter id (slots m)) \<le> length (slots m)"
    by (rule length_map_filter_le)
  then show "wellFormed (sortInventory ops sortBy ascending now m)"
    using assms
    by (simp add: sortInventory_def wellFormed_def Let_def length_arraySort min_def)
qed

section \<open>Proofs: operations in the browser\<close>




end
